theory Spec2Isabelle
  imports Main "HOL-Library.Sublist"
begin

section \<open>The storefront bootstrap (app.js): data model\<close>

text \<open>
  The repository is one Express bootstrap, present in two variants (lines 1-156 and
  157-301 of \<^verbatim>\<open>src/app.js\<close>). The embedding has three parts:
  \<^item> the upload callbacks \<^verbatim>\<open>fileStorage\<close> and \<^verbatim>\<open>fileFilter\<close>, which are pure string
    functions of the uploaded file and of the clock;
  \<^item> the middleware written in the file itself (locals, user attachment, the 500 page,
    the debug route), as functions from the request state to an outcome;
  \<^item> the \<^verbatim>\<open>app.use\<close> chain, as a list of layers in registration order, run by a
    dispatcher that follows Express: a layer is entered when its path matches, an
    error skips to the next error-handling layer, a sent response ends the run.
  What lives outside the file (the clock, the session store, the user collection, the
  token functions of csurf, the routers, the files under public/ and images/) is a field
  of the record \<open>env\<close>; every theorem holds for every such environment.
\<close>

subsection \<open>Requests, sessions, files\<close>

datatype http_method = GET | HEAD | OPTIONS | POST | PUT | DELETE | PATCH

text \<open>The file object multer hands to the callbacks.\<close>

record upload =
  fieldname :: string
  originalname :: string
  mimetype :: string

record request =
  reqMethod :: http_method
  reqPath :: string
  csrfValue :: "string option"   \<comment> \<open>the token submitted in body, query or header\<close>
  filePart :: "upload option"    \<comment> \<open>the file part of a multipart body\<close>

text \<open>
  The session object: \<open>isLoggedIn\<close> is a boolean that may be missing,
  \<open>sessUser\<close> is the \<^verbatim>\<open>_id\<close> of \<^verbatim>\<open>session.user\<close> when that property is set,
  \<open>csrfSecret\<close> is where csurf keeps its secret.
\<close>

record session =
  isLoggedIn :: "bool option"
  sessUser :: "string option"
  csrfSecret :: "string option"

datatype user = User string

text \<open>The instant \<^verbatim>\<open>new Date()\<close> returns, by its UTC fields.\<close>

record date =
  year :: nat
  month :: nat
  day :: nat
  hours :: nat
  minutes :: nat
  seconds :: nat
  millis :: nat

definition valid_date :: "date \<Rightarrow> bool" where
  "valid_date d = (year d \<le> 9999 \<and> 1 \<le> month d \<and> month d \<le> 12 \<and> 1 \<le> day d \<and> day d \<le> 31
     \<and> hours d < 24 \<and> minutes d < 60 \<and> seconds d < 60 \<and> millis d < 1000)"

datatype error =
    TypeError string
  | MisconfiguredCsrf
  | InvalidCsrfToken
  | MulterError string
  | WrappedError string
  | LibraryError string

text \<open>The \<^verbatim>\<open>status\<close> property of an error object, when it has one.\<close>

fun error_status :: "error \<Rightarrow> nat option" where
  "error_status InvalidCsrfToken = Some 403"
| "error_status _ = None"

subsection \<open>The upload callbacks (lines 32-54)\<close>

text \<open>
  \<^verbatim>\<open>Date.prototype.toISOString\<close>: \<^verbatim>\<open>YYYY-MM-DDTHH:mm:ss.sssZ\<close>, each field
  zero-padded; a year past 9999 is written with a sign and six digits.
\<close>

definition digit :: "nat \<Rightarrow> char" where
  "digit n = ''0123456789'' ! (n mod 10)"

definition pad2 :: "nat \<Rightarrow> string" where
  "pad2 n = [digit (n div 10), digit n]"

definition pad3 :: "nat \<Rightarrow> string" where
  "pad3 n = [digit (n div 100), digit (n div 10), digit n]"

definition pad4 :: "nat \<Rightarrow> string" where
  "pad4 n = [digit (n div 1000), digit (n div 100), digit (n div 10), digit n]"

definition pad6 :: "nat \<Rightarrow> string" where
  "pad6 n = [digit (n div 100000), digit (n div 10000), digit (n div 1000),
             digit (n div 100), digit (n div 10), digit n]"

definition toISOString :: "date \<Rightarrow> string" where
  "toISOString d =
     (if year d \<le> 9999 then pad4 (year d) else ''+'' @ pad6 (year d))
     @ ''-'' @ pad2 (month d) @ ''-'' @ pad2 (day d)
     @ ''T'' @ pad2 (hours d) @ '':'' @ pad2 (minutes d) @ '':'' @ pad2 (seconds d)
     @ ''.'' @ pad3 (millis d) @ ''Z''"

text \<open>\<^verbatim>\<open>.replace(/:/g, "-")\<close>\<close>

definition replace_colons :: "string \<Rightarrow> string" where
  "replace_colons s = map (\<lambda>ch. if ch = CHR '':'' then CHR ''-'' else ch) s"

text \<open>
  A callback \<^verbatim>\<open>cb(err, value)\<close> is the pair of its arguments; \<^verbatim>\<open>null\<close> is \<open>None\<close>.
\<close>

definition destination :: "upload \<Rightarrow> error option \<times> string" where
  "destination f = (None, ''images'')"

definition filename :: "date \<Rightarrow> upload \<Rightarrow> error option \<times> string" where
  "filename now f = (None, replace_colons (toISOString now) @ ''-'' @ originalname f)"

definition fileFilter :: "upload \<Rightarrow> error option \<times> bool" where
  "fileFilter f =
     (if mimetype f = ''image/png'' \<or> mimetype f = ''image/jpg'' \<or> mimetype f = ''image/jpeg''
      then (None, True)
      else (None, False))"

subsection \<open>Request state, responses, outcomes\<close>

text \<open>
  The values the expression \<^verbatim>\<open>req.session?.isLoggedIn || false\<close> ranges over.
\<close>

datatype jsval = JUndefined | JBool bool

fun truthy :: "jsval \<Rightarrow> bool" where
  "truthy JUndefined = False"
| "truthy (JBool b) = b"

text \<open>\<^verbatim>\<open>a || b\<close>: the left operand when it is truthy, the right one otherwise.\<close>

definition js_or :: "jsval \<Rightarrow> jsval \<Rightarrow> jsval" where
  "js_or a b = (if truthy a then a else b)"

text \<open>
  \<^verbatim>\<open>req.session?.isLoggedIn\<close>: undefined when there is no session object, and when the
  session has no such property.
\<close>

definition session_isLoggedIn :: "session option \<Rightarrow> jsval" where
  "session_isLoggedIn so =
     (case so of
        None \<Rightarrow> JUndefined
      | Some s \<Rightarrow> (case isLoggedIn s of None \<Rightarrow> JUndefined | Some b \<Rightarrow> JBool b))"

record stored_file =
  storedDestination :: string
  storedFilename :: string

text \<open>
  What the middleware reads and writes while one request is handled: the properties
  attached to \<^verbatim>\<open>req\<close>, the two \<^verbatim>\<open>res.locals\<close> the file sets, and the files written
  under the upload directory.
\<close>

record ctx =
  req :: request
  reqSession :: "session option"          \<comment> \<open>\<^verbatim>\<open>req.session\<close>\<close>
  reqUser :: "user option"                \<comment> \<open>\<^verbatim>\<open>req.user\<close>\<close>
  reqFile :: "stored_file option"         \<comment> \<open>\<^verbatim>\<open>req.file\<close>\<close>
  hasCsrfToken :: bool                    \<comment> \<open>\<^verbatim>\<open>req.csrfToken\<close> is installed\<close>
  localsIsAuthenticated :: "jsval option" \<comment> \<open>\<^verbatim>\<open>res.locals.isAuthenticated\<close>\<close>
  localsCsrfToken :: "string option"      \<comment> \<open>\<^verbatim>\<open>res.locals.csrfToken\<close>\<close>
  disk :: "(string \<times> string) list"        \<comment> \<open>(directory, file name) of each file written\<close>

record view_locals =
  pageTitle :: string
  path :: string
  isAuthenticated :: jsval

datatype response =
    Render nat string view_locals    \<comment> \<open>\<^verbatim>\<open>res.status(n).render(view, locals)\<close>\<close>
  | Send "session option"            \<comment> \<open>\<^verbatim>\<open>res.send(req.session)\<close>\<close>
  | StaticFile string                \<comment> \<open>a file served by express.static\<close>
  | NotFoundPage                     \<comment> \<open>the page of the 404 controller\<close>
  | RouterResponse nat string        \<comment> \<open>a response of one of the three routers\<close>
  | FinalNotFound                    \<comment> \<open>Express's own 404, when the stack is exhausted\<close>
  | FinalError error                 \<comment> \<open>Express's own error page\<close>

fun status_of :: "response \<Rightarrow> nat" where
  "status_of (Render n v l) = n"
| "status_of (Send s) = 200"
| "status_of (StaticFile p) = 200"
| "status_of NotFoundPage = 404"
| "status_of (RouterResponse n b) = n"
| "status_of FinalNotFound = 404"
| "status_of (FinalError e) = (case error_status e of Some n \<Rightarrow> n | None \<Rightarrow> 500)"

definition is_client_error :: "nat \<Rightarrow> bool" where
  "is_client_error n = (400 \<le> n \<and> n < 500)"

text \<open>
  What a middleware does with a request: \<^verbatim>\<open>next()\<close>, \<^verbatim>\<open>next(err)\<close>, a synchronous
  \<^verbatim>\<open>throw\<close> (which Express catches and treats as \<^verbatim>\<open>next(err)\<close>), or a response.
\<close>

datatype outcome =
    Next ctx
  | NextErr error ctx
  | Throw error ctx
  | End response ctx

subsection \<open>The environment\<close>

datatype session_load =
    Loaded session       \<comment> \<open>the stored session of the cookie, or a fresh one\<close>
  | StoreDisconnected    \<comment> \<open>express-session calls \<^verbatim>\<open>next()\<close> and sets no \<^verbatim>\<open>req.session\<close>\<close>
  | StoreFailed string   \<comment> \<open>the store's error goes to \<^verbatim>\<open>next(err)\<close>\<close>

datatype lookup = Found user | NotFound | Failed string

record env =
  now :: date                                  \<comment> \<open>\<^verbatim>\<open>new Date()\<close>\<close>
  bodyParserError :: "request \<Rightarrow> error option"  \<comment> \<open>body-parser's verdict on the body\<close>
  publicFile :: "string \<Rightarrow> bool"                \<comment> \<open>a file of public/ at this path\<close>
  imageFile :: "string \<Rightarrow> bool"                 \<comment> \<open>a file of images/ at this path\<close>
  loadSession :: "request \<Rightarrow> session_load"      \<comment> \<open>express-session and its store\<close>
  newSecret :: string                          \<comment> \<open>csurf: \<^verbatim>\<open>tokens.secretSync()\<close>\<close>
  verifyToken :: "string \<Rightarrow> string \<Rightarrow> bool"     \<comment> \<open>csurf: \<^verbatim>\<open>tokens.verify(secret, token)\<close>\<close>
  createToken :: "string \<Rightarrow> string"             \<comment> \<open>csurf: \<^verbatim>\<open>tokens.create(secret)\<close>\<close>
  findById :: "string \<Rightarrow> lookup"                \<comment> \<open>\<^verbatim>\<open>User.findById\<close>\<close>
  mountMatches :: "string \<Rightarrow> string \<Rightarrow> bool"    \<comment> \<open>Express: mount path against request path\<close>
  routeMatches :: "string \<Rightarrow> string \<Rightarrow> bool"    \<comment> \<open>Express: route path against request path\<close>
  adminRoutes :: "ctx \<Rightarrow> outcome"               \<comment> \<open>routes/admin\<close>
  shopRoutes :: "ctx \<Rightarrow> outcome"                \<comment> \<open>routes/shop\<close>
  authRoutes :: "ctx \<Rightarrow> outcome"                \<comment> \<open>routes/auth\<close>
  uploads :: "(string \<times> string) list"         \<comment> \<open>the files written before this request\<close>

subsection \<open>Library middleware\<close>

text \<open>
  helmet, compression, morgan and connect-flash set headers, wrap the response stream,
  write a log line and install \<^verbatim>\<open>req.flash\<close>; each calls \<^verbatim>\<open>next()\<close> and touches nothing
  of the state modelled here.
\<close>

definition helmet :: "ctx \<Rightarrow> outcome" where
  "helmet c = Next c"

definition compression :: "ctx \<Rightarrow> outcome" where
  "compression c = Next c"

definition morgan :: "ctx \<Rightarrow> outcome" where
  "morgan c = Next c"

definition flash :: "ctx \<Rightarrow> outcome" where
  "flash c = Next c"

definition bodyParser_urlencoded :: "env \<Rightarrow> ctx \<Rightarrow> outcome" where
  "bodyParser_urlencoded e c =
     (case bodyParserError e (req c) of None \<Rightarrow> Next c | Some err \<Rightarrow> NextErr err c)"

text \<open>
  \<^verbatim>\<open>multer({storage, fileFilter}).single(field)\<close>: a file part under another field name is
  refused with an error before the filter is asked; a file the filter turns down is
  skipped; an accepted one is stored under the directory and the name the two storage
  callbacks give, and attached as \<^verbatim>\<open>req.file\<close>. A failing write is outside the model.
\<close>

definition multer_single :: "env \<Rightarrow> string \<Rightarrow> ctx \<Rightarrow> outcome" where
  "multer_single e field c =
     (case filePart (req c) of
        None \<Rightarrow> Next c
      | Some f \<Rightarrow>
          if fieldname f \<noteq> field then NextErr (MulterError ''LIMIT_UNEXPECTED_FILE'') c
          else (case fst (fileFilter f) of
                  Some err \<Rightarrow> NextErr err c
                | None \<Rightarrow>
                    if \<not> snd (fileFilter f) then Next c
                    else (case fst (destination f) of
                            Some err \<Rightarrow> NextErr err c
                          | None \<Rightarrow>
                              (case fst (filename (now e) f) of
                                 Some err \<Rightarrow> NextErr err c
                               | None \<Rightarrow>
                                   Next (c\<lparr>reqFile := Some \<lparr>storedDestination = snd (destination f),
                                                            storedFilename = snd (filename (now e) f)\<rparr>,
                                           disk := (snd (destination f), snd (filename (now e) f)) # disk c\<rparr>)))))"

text \<open>\<^verbatim>\<open>express.static\<close>: only GET and HEAD are served; everything else falls through.\<close>

definition serve_static :: "(string \<Rightarrow> bool) \<Rightarrow> ctx \<Rightarrow> outcome" where
  "serve_static present c =
     (if (reqMethod (req c) = GET \<or> reqMethod (req c) = HEAD) \<and> present (reqPath (req c))
      then End (StaticFile (reqPath (req c))) c
      else Next c)"

definition session_mw :: "env \<Rightarrow> ctx \<Rightarrow> outcome" where
  "session_mw e c =
     (case loadSession e (req c) of
        Loaded s \<Rightarrow> Next (c\<lparr>reqSession := Some s\<rparr>)
      | StoreDisconnected \<Rightarrow> Next c
      | StoreFailed m \<Rightarrow> NextErr (LibraryError m) c)"

text \<open>
  csurf with its default options (\<^verbatim>\<open>csrf()\<close>, line 29): the secret lives in the
  session; a request without a session object is a configuration error; GET, HEAD and
  OPTIONS are not verified; on every other method a missing or wrong token is the error
  \<^verbatim>\<open>EBADCSRFTOKEN\<close> with status 403.
\<close>

definition csrf_ignored :: "http_method \<Rightarrow> bool" where
  "csrf_ignored m = (m = GET \<or> m = HEAD \<or> m = OPTIONS)"

definition token_ok :: "env \<Rightarrow> string \<Rightarrow> string option \<Rightarrow> bool" where
  "token_ok e secret tok = (case tok of None \<Rightarrow> False | Some t \<Rightarrow> verifyToken e secret t)"

definition session_secret :: "env \<Rightarrow> session \<Rightarrow> string" where
  "session_secret e s = (case csrfSecret s of Some x \<Rightarrow> x | None \<Rightarrow> newSecret e)"

definition csrfProtection :: "env \<Rightarrow> ctx \<Rightarrow> outcome" where
  "csrfProtection e c =
     (case reqSession c of
        None \<Rightarrow> NextErr MisconfiguredCsrf c
      | Some s \<Rightarrow>
          (let c' = c\<lparr>reqSession := Some (s\<lparr>csrfSecret := Some (session_secret e s)\<rparr>),
                      hasCsrfToken := True\<rparr>
           in if \<not> csrf_ignored (reqMethod (req c))
                 \<and> \<not> token_ok e (session_secret e s) (csrfValue (req c))
              then NextErr InvalidCsrfToken c'
              else Next c'))"

text \<open>\<^verbatim>\<open>req.csrfToken()\<close>, the function csurf installs: it throws without a session.\<close>

definition csrfToken :: "env \<Rightarrow> ctx \<Rightarrow> error + string \<times> ctx" where
  "csrfToken e c =
     (case reqSession c of
        None \<Rightarrow> Inl MisconfiguredCsrf
      | Some s \<Rightarrow>
          Inr (createToken e (session_secret e s),
               c\<lparr>reqSession := Some (s\<lparr>csrfSecret := Some (session_secret e s)\<rparr>)\<rparr>))"

subsection \<open>The middleware of app.js\<close>

text \<open>Lines 98-102: the locals of every view.\<close>

definition setLocals :: "env \<Rightarrow> ctx \<Rightarrow> outcome" where
  "setLocals e c =
     (let c1 = c\<lparr>localsIsAuthenticated :=
                   Some (js_or (session_isLoggedIn (reqSession c)) (JBool False))\<rparr>
      in if \<not> hasCsrfToken c1 then Throw (TypeError ''req.csrfToken is not a function'') c1
         else (case csrfToken e c1 of
                 Inl err \<Rightarrow> Throw err c1
               | Inr tc \<Rightarrow> Next ((snd tc)\<lparr>localsCsrfToken := Some (fst tc)\<rparr>)))"

text \<open>
  Lines 105-120: the user of the session. \<^verbatim>\<open>req.session.user\<close> is read without a
  guard, so a request without a session object throws here.
\<close>

definition setUser :: "env \<Rightarrow> ctx \<Rightarrow> outcome" where
  "setUser e c =
     (case reqSession c of
        None \<Rightarrow> Throw (TypeError ''Cannot read properties of undefined'') c
      | Some s \<Rightarrow>
          (case sessUser s of
             None \<Rightarrow> Next c
           | Some uid \<Rightarrow>
               (case findById e uid of
                  Found u \<Rightarrow> Next (c\<lparr>reqUser := Some u\<rparr>)
                | NotFound \<Rightarrow> Next c
                | Failed m \<Rightarrow> NextErr (WrappedError m) c)))"

text \<open>
  Modelled from the spec: \<^verbatim>\<open>errorController.get404\<close> (./controllers/error) is not
  among the sources. The specification describes it as the catch-all for unmatched
  routes, which renders the not-found page: it answers, and calls neither \<^verbatim>\<open>next()\<close>
  nor \<^verbatim>\<open>next(err)\<close>.
\<close>

definition get404 :: "ctx \<Rightarrow> outcome" where
  "get404 c = End NotFoundPage c"

text \<open>Lines 131-137: the 500 page.\<close>

definition failure_page :: "ctx \<Rightarrow> response" where
  "failure_page c =
     Render 500 ''500''
       \<lparr>pageTitle = ''Error!'', path = ''/500'',
        isAuthenticated = js_or (session_isLoggedIn (reqSession c)) (JBool False)\<rparr>"

definition errorPage500 :: "error \<Rightarrow> ctx \<Rightarrow> outcome" where
  "errorPage500 err c = End (failure_page c) c"

text \<open>Lines 153-156: the debug route.\<close>

definition debugSession :: "ctx \<Rightarrow> outcome" where
  "debugSession c = End (Send (reqSession c)) c"

section \<open>The middleware stack\<close>

datatype layer_name =
    Helmet | Compression | Morgan | BodyParser | Multer | StaticPublic | StaticImages
  | Session | Csrf | Flash | Locals | UserAttach
  | AdminRoutes | ShopRoutes | AuthRoutes | Get404 | Error500 | DebugSession

datatype handler = Mw "ctx \<Rightarrow> outcome" | ErrMw "error \<Rightarrow> ctx \<Rightarrow> outcome"

record layer =
  lname :: layer_name
  lmatch :: "request \<Rightarrow> bool"
  lhandler :: handler

text \<open>\<^verbatim>\<open>app.use(h)\<close>, \<^verbatim>\<open>app.use(path, h)\<close> and \<^verbatim>\<open>app.get(path, h)\<close>.\<close>

definition use :: "layer_name \<Rightarrow> handler \<Rightarrow> layer" where
  "use n h = \<lparr>lname = n, lmatch = (\<lambda>r. True), lhandler = h\<rparr>"

definition use_at :: "env \<Rightarrow> string \<Rightarrow> layer_name \<Rightarrow> handler \<Rightarrow> layer" where
  "use_at e p n h = \<lparr>lname = n, lmatch = (\<lambda>r. mountMatches e p (reqPath r)), lhandler = h\<rparr>"

definition get_at :: "env \<Rightarrow> string \<Rightarrow> layer_name \<Rightarrow> handler \<Rightarrow> layer" where
  "get_at e p n h =
     \<lparr>lname = n,
      lmatch = (\<lambda>r. (reqMethod r = GET \<or> reqMethod r = HEAD) \<and> routeMatches e p (reqPath r)),
      lhandler = h\<rparr>"

text \<open>
  One run of the stack: the layers entered, each with the state it was entered in, the
  response, and the final state.
\<close>

type_synonym run = "(layer_name \<times> ctx) list \<times> response \<times> ctx"

definition entered :: "layer_name \<Rightarrow> ctx \<Rightarrow> run \<Rightarrow> run" where
  "entered n c r = ((n, c) # fst r, snd r)"

definition trace :: "run \<Rightarrow> layer_name list" where
  "trace r = map fst (fst r)"

definition response_of :: "run \<Rightarrow> response" where
  "response_of r = fst (snd r)"

fun dispatch :: "layer list \<Rightarrow> error option \<Rightarrow> ctx \<Rightarrow> run" where
  "dispatch [] None c = ([], FinalNotFound, c)"
| "dispatch [] (Some err) c = ([], FinalError err, c)"
| "dispatch (l # ls) None c =
     (if \<not> lmatch l (req c) then dispatch ls None c
      else (case lhandler l of
              ErrMw h \<Rightarrow> dispatch ls None c
            | Mw h \<Rightarrow>
                entered (lname l) c
                  (case h c of
                     Next c' \<Rightarrow> dispatch ls None c'
                   | NextErr err c' \<Rightarrow> dispatch ls (Some err) c'
                   | Throw err c' \<Rightarrow> dispatch ls (Some err) c'
                   | End r c' \<Rightarrow> ([], r, c'))))"
| "dispatch (l # ls) (Some err) c =
     (if \<not> lmatch l (req c) then dispatch ls (Some err) c
      else (case lhandler l of
              Mw h \<Rightarrow> dispatch ls (Some err) c
            | ErrMw h \<Rightarrow>
                entered (lname l) c
                  (case h err c of
                     Next c' \<Rightarrow> dispatch ls None c'
                   | NextErr err' c' \<Rightarrow> dispatch ls (Some err') c'
                   | Throw err' c' \<Rightarrow> dispatch ls (Some err') c'
                   | End r c' \<Rightarrow> ([], r, c'))))"

text \<open>The stack of the first variant, lines 70-156, in registration order.\<close>

definition app :: "env \<Rightarrow> layer list" where
  "app e =
     [use Helmet (Mw helmet),
      use Compression (Mw compression),
      use Morgan (Mw morgan),
      use BodyParser (Mw (bodyParser_urlencoded e)),
      use Multer (Mw (multer_single e ''image'')),
      use StaticPublic (Mw (serve_static (publicFile e))),
      use_at e ''/images'' StaticImages (Mw (serve_static (imageFile e))),
      use Session (Mw (session_mw e)),
      use Csrf (Mw (csrfProtection e)),
      use Flash (Mw flash),
      use Locals (Mw (setLocals e)),
      use UserAttach (Mw (setUser e)),
      use_at e ''/admin'' AdminRoutes (Mw (adminRoutes e)),
      use ShopRoutes (Mw (shopRoutes e)),
      use AuthRoutes (Mw (authRoutes e)),
      use Get404 (Mw get404),
      use Error500 (ErrMw errorPage500),
      get_at e ''/debug-session'' DebugSession (Mw debugSession)]"

text \<open>The stack of the second variant, lines 218-301.\<close>

definition app2 :: "env \<Rightarrow> layer list" where
  "app2 e =
     [use Helmet (Mw helmet),
      use Compression (Mw compression),
      use Morgan (Mw morgan),
      use BodyParser (Mw (bodyParser_urlencoded e)),
      use Multer (Mw (multer_single e ''image'')),
      use StaticPublic (Mw (serve_static (publicFile e))),
      use_at e ''/images'' StaticImages (Mw (serve_static (imageFile e))),
      use Session (Mw (session_mw e)),
      use Csrf (Mw (csrfProtection e)),
      use Flash (Mw flash),
      use Locals (Mw (setLocals e)),
      use UserAttach (Mw (setUser e)),
      use_at e ''/admin'' AdminRoutes (Mw (adminRoutes e)),
      use ShopRoutes (Mw (shopRoutes e)),
      use AuthRoutes (Mw (authRoutes e)),
      use Get404 (Mw get404),
      use Error500 (ErrMw errorPage500),
      get_at e ''/debug-session'' DebugSession (Mw debugSession)]"

definition init :: "env \<Rightarrow> request \<Rightarrow> ctx" where
  "init e r =
     \<lparr>req = r, reqSession = None, reqUser = None, reqFile = None, hasCsrfToken = False,
      localsIsAuthenticated = None, localsCsrfToken = None, disk = uploads e\<rparr>"

definition handle :: "env \<Rightarrow> request \<Rightarrow> run" where
  "handle e r = dispatch (app e) None (init e r)"

definition handle2 :: "env \<Rightarrow> request \<Rightarrow> run" where
  "handle2 e r = dispatch (app2 e) None (init e r)"

text \<open>The part of a stack from the layer of a given name on, and the state a layer was entered in.\<close>

definition stack_from :: "layer_name \<Rightarrow> layer list \<Rightarrow> layer list" where
  "stack_from n ls = dropWhile (\<lambda>l. lname l \<noteq> n) ls"

definition state_at :: "run \<Rightarrow> layer_name \<Rightarrow> ctx option" where
  "state_at r n = map_of (fst r) n"

definition is_route :: "layer_name \<Rightarrow> bool" where
  "is_route n = (n = AdminRoutes \<or> n = ShopRoutes \<or> n = AuthRoutes)"

text \<open>The state in which the first of the three routers was entered, if one was.\<close>

definition route_entry :: "run \<Rightarrow> (layer_name \<times> ctx) option" where
  "route_entry r = find (\<lambda>nc. is_route (fst nc)) (fst r)"

subsection \<open>The rest of the two bootstraps\<close>

datatype store_library = ConnectMongodbSession | ConnectMongo

record store_options =
  library :: store_library
  databaseName :: string
  collection :: "string option"
  tls :: "bool option"

record session_options =
  secret :: string
  resave :: bool
  saveUninitialized :: bool
  cookieMaxAge :: "nat option"     \<comment> \<open>\<^verbatim>\<open>cookie.maxAge\<close> in milliseconds, when a cookie is configured\<close>

record bootstrap =
  viewEngine :: string
  views :: string
  stack :: "env \<Rightarrow> layer list"
  sessionStore :: store_options
  sessionOptions :: session_options
  connectOptions :: "(string \<times> bool) list"   \<comment> \<open>the second argument of \<^verbatim>\<open>mongoose.connect\<close>\<close>
  defaultPort :: nat

definition variant1 :: bootstrap where
  "variant1 =
     \<lparr>viewEngine = ''ejs'', views = ''views'', stack = app,
      sessionStore = \<lparr>library = ConnectMongodbSession, databaseName = ''shop'',
                      collection = Some ''sessions'', tls = Some True\<rparr>,
      sessionOptions = \<lparr>secret = ''my secret'', resave = False, saveUninitialized = False,
                        cookieMaxAge = Some (1000 * 60 * 60 * 24)\<rparr>,
      connectOptions = [(''useNewUrlParser'', True), (''useUnifiedTopology'', True)],
      defaultPort = 3001\<rparr>"

definition variant2 :: bootstrap where
  "variant2 =
     \<lparr>viewEngine = ''ejs'', views = ''views'', stack = app2,
      sessionStore = \<lparr>library = ConnectMongo, databaseName = ''hop'',
                      collection = None, tls = None\<rparr>,
      sessionOptions = \<lparr>secret = ''my secret'', resave = False, saveUninitialized = False,
                        cookieMaxAge = None\<rparr>,
      connectOptions = [],
      defaultPort = 3000\<rparr>"

text \<open>
  \<^verbatim>\<open>app.listen(process.env.PORT || 3001)\<close>: the variable when it is set and not empty,
  the default otherwise.
\<close>

datatype port = PortFromEnv string | PortNumber nat

definition listen_port :: "bootstrap \<Rightarrow> string option \<Rightarrow> port" where
  "listen_port b env_port =
     (case env_port of
        None \<Rightarrow> PortNumber (defaultPort b)
      | Some p \<Rightarrow> if p = [] then PortNumber (defaultPort b) else PortFromEnv p)"

subsection \<open>Notions the properties are stated with\<close>

text \<open>The methods the CSRF property speaks of.\<close>

definition state_changing :: "http_method \<Rightarrow> bool" where
  "state_changing m = (m = POST \<or> m = PUT \<or> m = DELETE)"

text \<open>
  The submitted token is present and verifies against the secret bound to the session
  of the request.
\<close>

definition csrf_valid :: "env \<Rightarrow> request \<Rightarrow> bool" where
  "csrf_valid e r =
     (case loadSession e r of
        Loaded s \<Rightarrow> token_ok e (session_secret e s) (csrfValue r)
      | StoreDisconnected \<Rightarrow> False
      | StoreFailed m \<Rightarrow> False)"

text \<open>
  The authentication state a view is to see: the flag of the session when there is a
  session and the flag is true, false in every other case.
\<close>

definition expected_auth :: "session option \<Rightarrow> bool" where
  "expected_auth so =
     (case so of
        None \<Rightarrow> False
      | Some s \<Rightarrow> (case isLoggedIn s of None \<Rightarrow> False | Some b \<Rightarrow> b))"

text \<open>The registration order of the layers, and the order of the stages as specified.\<close>

definition registration_order :: "layer_name list" where
  "registration_order =
     [Helmet, Compression, Morgan, BodyParser, Multer, StaticPublic, StaticImages,
      Session, Csrf, Flash, Locals, UserAttach,
      AdminRoutes, ShopRoutes, AuthRoutes, Get404, Error500, DebugSession]"

definition specified_order :: "layer_name list" where
  "specified_order =
     [Compression, Morgan, BodyParser, Multer, Session, UserAttach, Csrf, Flash,
      AdminRoutes, ShopRoutes, AuthRoutes, Get404, Error500]"

text \<open>A run follows an order when the layers of that order it enters, it enters in that order.\<close>

definition follows :: "layer_name list \<Rightarrow> layer_name list \<Rightarrow> bool" where
  "follows order t = subseq (filter (\<lambda>n. n \<in> set order) t) order"

subsection \<open>A concrete environment and concrete requests\<close>

definition example_date :: date where
  "example_date =
     \<lparr>year = 2024, month = 3, day = 9, hours = 14, minutes = 5, seconds = 7, millis = 42\<rparr>"

definition example_date_later :: date where
  "example_date_later = example_date\<lparr>millis := 43\<rparr>"

definition example_png :: upload where
  "example_png = \<lparr>fieldname = ''image'', originalname = ''cat.png'', mimetype = ''image/png''\<rparr>"

definition example_gif :: upload where
  "example_gif = \<lparr>fieldname = ''image'', originalname = ''cat.gif'', mimetype = ''image/gif''\<rparr>"

definition example_session :: session where
  "example_session = \<lparr>isLoggedIn = Some True, sessUser = Some ''u1'', csrfSecret = Some ''abc''\<rparr>"

definition example_env :: env where
  "example_env =
     \<lparr>now = example_date,
      bodyParserError = (\<lambda>r. None),
      publicFile = (\<lambda>p. False),
      imageFile = (\<lambda>p. False),
      loadSession = (\<lambda>r. Loaded example_session),
      newSecret = ''fresh'',
      verifyToken = (\<lambda>s t. t = ''tok-'' @ s),
      createToken = (\<lambda>s. ''tok-'' @ s),
      findById = (\<lambda>i. if i = ''u1'' then Found (User ''u1'') else NotFound),
      mountMatches = (\<lambda>p q. take (length p) q = p),
      routeMatches = (\<lambda>p q. p = q),
      adminRoutes = Next,
      shopRoutes = Next,
      authRoutes = Next,
      uploads = []\<rparr>"

definition get_debug_session :: request where
  "get_debug_session =
     \<lparr>reqMethod = GET, reqPath = ''/debug-session'', csrfValue = None, filePart = None\<rparr>"

definition post_without_token :: request where
  "post_without_token =
     \<lparr>reqMethod = POST, reqPath = ''/admin/add-product'', csrfValue = None, filePart = None\<rparr>"

definition post_gif :: request where
  "post_gif =
     \<lparr>reqMethod = POST, reqPath = ''/admin/add-product'', csrfValue = Some ''tok-abc'',
      filePart = Some example_gif\<rparr>"

definition post_png :: request where
  "post_png =
     \<lparr>reqMethod = POST, reqPath = ''/admin/add-product'', csrfValue = Some ''tok-abc'',
      filePart = Some example_png\<rparr>"

definition example_gif_photo :: upload where
  "example_gif_photo =
     \<lparr>fieldname = ''photo'', originalname = ''cat.gif'', mimetype = ''image/gif''\<rparr>"

definition post_gif_photo :: request where
  "post_gif_photo =
     \<lparr>reqMethod = POST, reqPath = ''/admin/add-product'', csrfValue = Some ''tok-abc'',
      filePart = Some example_gif_photo\<rparr>"

definition get_home :: request where
  "get_home = \<lparr>reqMethod = GET, reqPath = ''/'', csrfValue = None, filePart = None\<rparr>"

definition example_state :: ctx where
  "example_state =
     \<lparr>req = get_home, reqSession = Some example_session, reqUser = None, reqFile = None,
      hasCsrfToken = True, localsIsAuthenticated = Some (JBool True),
      localsCsrfToken = Some ''tok-abc'', disk = []\<rparr>"

subsection \<open>Predicates on runs\<close>

text \<open>The response is the page of the 500 middleware.\<close>

definition is_failure_page :: "response \<Rightarrow> bool" where
  "is_failure_page r =
     (case r of
        Render n v l \<Rightarrow> n = 500 \<and> v = ''500'' \<and> pageTitle l = ''Error!'' \<and> path l = ''/500''
      | _ \<Rightarrow> False)"

text \<open>A run that ended at the 500 middleware without entering a router.\<close>

definition refused :: "run \<Rightarrow> bool" where
  "refused r = (is_failure_page (response_of r) \<and> Error500 \<in> set (trace r)
                \<and> \<not> list_ex is_route (trace r))"

text \<open>
  What the locals middleware leaves behind: the authentication flag of the views, and a
  token made from the secret of the session.
\<close>

definition locals_ready :: "env \<Rightarrow> ctx \<Rightarrow> bool" where
  "locals_ready e c =
     (localsIsAuthenticated c = Some (JBool (expected_auth (reqSession c)))
      \<and> (case reqSession c of
            None \<Rightarrow> False
          | Some s \<Rightarrow> (case csrfSecret s of
                        None \<Rightarrow> False
                      | Some k \<Rightarrow> localsCsrfToken c = Some (createToken e k))))"

definition routes_ready :: "env \<Rightarrow> run \<Rightarrow> bool" where
  "routes_ready e r =
     (case route_entry r of None \<Rightarrow> True | Some nc \<Rightarrow> locals_ready e (snd nc))"

definition attach_safe :: "run \<Rightarrow> bool" where
  "attach_safe r =
     (case state_at r UserAttach of None \<Rightarrow> True | Some c \<Rightarrow> reqSession c \<noteq> None)"

section \<open>Lemmas on the timestamp\<close>

lemma digit_eq_iff: "digit a = digit b \<longleftrightarrow> a mod 10 = b mod 10"
proof -
  have d: "distinct ''0123456789''" by simp
  have "a mod 10 < length ''0123456789''" "b mod 10 < length ''0123456789''" by simp_all
  with d show ?thesis unfolding digit_def by (simp only: nth_eq_iff_index_eq)
qed

lemma digit_not_colon: "digit n \<noteq> CHR '':''"
proof -
  have "digit n \<in> set ''0123456789''" unfolding digit_def by (rule nth_mem) simp
  then show ?thesis by auto
qed

lemma no_colon_left: "CHR '':'' \<notin> set (replace_colons s)"
  by (auto simp: replace_colons_def)

lemma div_mod_10_eq: "(a::nat) div 10 = b div 10 \<Longrightarrow> a mod 10 = b mod 10 \<Longrightarrow> a = b"
  by (metis div_mult_mod_eq)

lemma pad2_inj:
  assumes "a < 100" "b < 100" "pad2 a = pad2 b" shows "a = b"
proof -
  from assms(3) have "a div 10 mod 10 = b div 10 mod 10" "a mod 10 = b mod 10"
    by (simp_all add: pad2_def digit_eq_iff)
  moreover from assms(1,2) have "a div 10 < 10" "b div 10 < 10" by simp_all
  ultimately show ?thesis by (rule_tac div_mod_10_eq) simp_all
qed

lemma pad3_inj:
  assumes "a < 1000" "b < 1000" "pad3 a = pad3 b" shows "a = b"
proof -
  from assms(3) have e: "a div 100 mod 10 = b div 100 mod 10"
    "a div 10 mod 10 = b div 10 mod 10" "a mod 10 = b mod 10"
    by (simp_all add: pad3_def digit_eq_iff)
  have h: "a div 10 div 10 = a div 100" "b div 10 div 10 = b div 100"
    by (simp_all add: div_mult2_eq[symmetric])
  from assms(1,2) have "a div 100 < 10" "b div 100 < 10" by simp_all
  with e(1) have "a div 100 = b div 100" by simp
  with h e(2) have "a div 10 = b div 10" by (rule_tac div_mod_10_eq) simp_all
  then show ?thesis using e(3) by (rule div_mod_10_eq)
qed

lemma pad4_inj:
  assumes "a < 10000" "b < 10000" "pad4 a = pad4 b" shows "a = b"
proof -
  from assms(3) have e: "a div 1000 mod 10 = b div 1000 mod 10"
    "a div 100 mod 10 = b div 100 mod 10"
    "a div 10 mod 10 = b div 10 mod 10" "a mod 10 = b mod 10"
    by (simp_all add: pad4_def digit_eq_iff)
  have h: "a div 10 div 10 = a div 100" "b div 10 div 10 = b div 100"
    "a div 100 div 10 = a div 1000" "b div 100 div 10 = b div 1000"
    by (simp_all add: div_mult2_eq[symmetric])
  from assms(1,2) have "a div 1000 < 10" "b div 1000 < 10" by simp_all
  with e(1) have "a div 1000 = b div 1000" by simp
  with h e(2) have "a div 100 = b div 100" by (rule_tac div_mod_10_eq) simp_all
  with h e(3) have "a div 10 = b div 10" by (rule_tac div_mod_10_eq) simp_all
  then show ?thesis using e(4) by (rule div_mod_10_eq)
qed

lemma replace_colons_iso:
  "year d \<le> 9999 \<Longrightarrow> replace_colons (toISOString d) =
     pad4 (year d) @ ''-'' @ pad2 (month d) @ ''-'' @ pad2 (day d) @ ''T'' @ pad2 (hours d)
     @ ''-'' @ pad2 (minutes d) @ ''-'' @ pad2 (seconds d) @ ''.'' @ pad3 (millis d) @ ''Z''"
  by (simp add: replace_colons_def toISOString_def pad2_def pad3_def pad4_def digit_not_colon)

lemma stamp_inj:
  assumes "valid_date d1" "valid_date d2"
    and "replace_colons (toISOString d1) @ ''-'' @ n1 = replace_colons (toISOString d2) @ ''-'' @ n2"
  shows "d1 = d2 \<and> n1 = n2"
proof -
  from assms(1,2) have y: "year d1 \<le> 9999" "year d2 \<le> 9999" by (simp_all add: valid_date_def)
  have len: "length (replace_colons (toISOString d1)) = length (replace_colons (toISOString d2))"
    using y by (simp add: replace_colons_iso pad2_def pad3_def pad4_def)
  from assms(3) len have st: "replace_colons (toISOString d1) = replace_colons (toISOString d2)"
    and n: "n1 = n2" by simp_all
  from st y have p:
    "pad4 (year d1) = pad4 (year d2)" "pad2 (month d1) = pad2 (month d2)"
    "pad2 (day d1) = pad2 (day d2)" "pad2 (hours d1) = pad2 (hours d2)"
    "pad2 (minutes d1) = pad2 (minutes d2)" "pad2 (seconds d1) = pad2 (seconds d2)"
    "pad3 (millis d1) = pad3 (millis d2)"
    by (simp_all add: replace_colons_iso pad2_def pad3_def pad4_def)
  from assms(1,2) have b: "year d1 < 10000" "year d2 < 10000" "month d1 < 100" "month d2 < 100"
    "day d1 < 100" "day d2 < 100" "hours d1 < 100" "hours d2 < 100" "minutes d1 < 100"
    "minutes d2 < 100" "seconds d1 < 100" "seconds d2 < 100" "millis d1 < 1000" "millis d2 < 1000"
    by (simp_all add: valid_date_def)
  have "year d1 = year d2" by (rule pad4_inj[OF b(1,2) p(1)])
  moreover have "month d1 = month d2" by (rule pad2_inj[OF b(3,4) p(2)])
  moreover have "day d1 = day d2" by (rule pad2_inj[OF b(5,6) p(3)])
  moreover have "hours d1 = hours d2" by (rule pad2_inj[OF b(7,8) p(4)])
  moreover have "minutes d1 = minutes d2" by (rule pad2_inj[OF b(9,10) p(5)])
  moreover have "seconds d1 = seconds d2" by (rule pad2_inj[OF b(11,12) p(6)])
  moreover have "millis d1 = millis d2" by (rule pad3_inj[OF b(13,14) p(7)])
  ultimately have "d1 = d2" by simp
  with n show ?thesis by simp
qed

section \<open>Lemmas on the dispatcher and the stack\<close>

lemma layer_sel [simp]:
  "lname (use n h) = n" "lhandler (use n h) = h" "lmatch (use n h) r"
  "lname (use_at e p n h) = n" "lhandler (use_at e p n h) = h"
  "lmatch (use_at e p n h) r = mountMatches e p (reqPath r)"
  "lname (get_at e p n h) = n" "lhandler (get_at e p n h) = h"
  "lmatch (get_at e p n h) r
     = ((reqMethod r = GET \<or> reqMethod r = HEAD) \<and> routeMatches e p (reqPath r))"
  by (simp_all add: use_def use_at_def get_at_def)

lemma response_of_entered [simp]: "response_of (entered n c r) = response_of r"
  by (simp add: response_of_def entered_def)

lemma trace_entered [simp]: "trace (entered n c r) = n # trace r"
  by (simp add: trace_def entered_def)

lemma response_of_triple [simp]: "response_of (t, r, c) = r"
  by (simp add: response_of_def)

lemma trace_Nil [simp]: "trace ([], x) = []"
  by (simp add: trace_def)

lemma state_at_entered [simp]:
  "state_at (entered n c r) m = (if n = m then Some c else state_at r m)"
  by (auto simp: state_at_def entered_def)

lemma state_at_Nil [simp]: "state_at ([], x) m = None"
  by (simp add: state_at_def)

lemma route_entry_entered [simp]:
  "route_entry (entered n c r) = (if is_route n then Some (n, c) else route_entry r)"
  by (simp add: route_entry_def entered_def)

lemma route_entry_Nil [simp]: "route_entry ([], x) = None"
  by (simp add: route_entry_def)

lemma is_route_simps [simp]:
  "is_route AdminRoutes" "is_route ShopRoutes" "is_route AuthRoutes"
  "\<not> is_route Helmet" "\<not> is_route Compression" "\<not> is_route Morgan" "\<not> is_route BodyParser"
  "\<not> is_route Multer" "\<not> is_route StaticPublic" "\<not> is_route StaticImages" "\<not> is_route Session"
  "\<not> is_route Csrf" "\<not> is_route Flash" "\<not> is_route Locals" "\<not> is_route UserAttach"
  "\<not> is_route Get404" "\<not> is_route Error500" "\<not> is_route DebugSession"
  by (simp_all add: is_route_def)

text \<open>The stack, layer by layer.\<close>

lemma stack_from_app:
  "stack_from Helmet (app e) = use Helmet (Mw helmet) # stack_from Compression (app e)"
  "stack_from Compression (app e) = use Compression (Mw compression) # stack_from Morgan (app e)"
  "stack_from Morgan (app e) = use Morgan (Mw morgan) # stack_from BodyParser (app e)"
  "stack_from BodyParser (app e)
     = use BodyParser (Mw (bodyParser_urlencoded e)) # stack_from Multer (app e)"
  "stack_from Multer (app e)
     = use Multer (Mw (multer_single e ''image'')) # stack_from StaticPublic (app e)"
  "stack_from StaticPublic (app e)
     = use StaticPublic (Mw (serve_static (publicFile e))) # stack_from StaticImages (app e)"
  "stack_from StaticImages (app e)
     = use_at e ''/images'' StaticImages (Mw (serve_static (imageFile e)))
         # stack_from Session (app e)"
  "stack_from Session (app e) = use Session (Mw (session_mw e)) # stack_from Csrf (app e)"
  "stack_from Csrf (app e) = use Csrf (Mw (csrfProtection e)) # stack_from Flash (app e)"
  "stack_from Flash (app e) = use Flash (Mw flash) # stack_from Locals (app e)"
  "stack_from Locals (app e) = use Locals (Mw (setLocals e)) # stack_from UserAttach (app e)"
  "stack_from UserAttach (app e)
     = use UserAttach (Mw (setUser e)) # stack_from AdminRoutes (app e)"
  "stack_from AdminRoutes (app e)
     = use_at e ''/admin'' AdminRoutes (Mw (adminRoutes e)) # stack_from ShopRoutes (app e)"
  "stack_from ShopRoutes (app e)
     = use ShopRoutes (Mw (shopRoutes e)) # stack_from AuthRoutes (app e)"
  "stack_from AuthRoutes (app e) = use AuthRoutes (Mw (authRoutes e)) # stack_from Get404 (app e)"
  "stack_from Get404 (app e) = use Get404 (Mw get404) # stack_from Error500 (app e)"
  "stack_from Error500 (app e)
     = use Error500 (ErrMw errorPage500) # stack_from DebugSession (app e)"
  "stack_from DebugSession (app e) = [get_at e ''/debug-session'' DebugSession (Mw debugSession)]"
  by (simp_all add: stack_from_def app_def)

lemma app_from_Helmet: "app e = stack_from Helmet (app e)"
  by (simp add: stack_from_def app_def)

lemma names_app: "map lname (app e) = registration_order"
  by (simp add: app_def registration_order_def)

text \<open>An error raised by any layer before the debug route ends at the 500 page.\<close>

lemma error_reaches_500:
  "n \<noteq> DebugSession \<Longrightarrow>
   dispatch (stack_from n (app e)) (Some err) c = entered Error500 c ([], failure_page c, c)"
  by (cases n) (simp_all add: stack_from_app errorPage500_def)

text \<open>The layers a run enters are a subsequence of the stack.\<close>

lemma trace_subseq: "subseq (trace (dispatch ls eo c)) (map lname ls)"
proof (induction ls eo c rule: dispatch.induct)
  case (1 c)
  then show ?case by simp
next
  case (2 err c)
  then show ?case by simp
next
  case (3 l ls c)
  then show ?case by (auto split: handler.splits outcome.splits)
next
  case (4 l ls err c)
  then show ?case by (auto split: handler.splits outcome.splits)
qed

text \<open>
  Behind a catch-all that answers, followed by an error handler that answers, nothing
  is entered.
\<close>

lemma dispatch_stops:
  "set (trace (dispatch (pre @ use n1 (Mw get404) # use n2 (ErrMw errorPage500) # post) eo c))
     \<subseteq> lname ` set pre \<union> {n1, n2}"
proof (induction pre arbitrary: eo c)
  case Nil
  show ?case by (cases eo) (simp_all add: get404_def errorPage500_def)
next
  case (Cons l pre)
  show ?case
  proof (cases eo)
    case None
    then show ?thesis using Cons.IH by (auto split: handler.splits outcome.splits)
  next
    case (Some err)
    then show ?thesis using Cons.IH by (auto split: handler.splits outcome.splits)
  qed
qed

text \<open>The run of the home page in the concrete environment.\<close>

lemmas example_defs = helmet_def compression_def morgan_def bodyParser_urlencoded_def
  multer_single_def serve_static_def session_mw_def csrfProtection_def flash_def
  setLocals_def csrfToken_def setUser_def get404_def csrf_ignored_def session_secret_def
  token_ok_def js_or_def session_isLoggedIn_def errorPage500_def
  example_env_def example_session_def init_def

lemma example_trace:
  "trace (handle example_env get_home) =
     [Helmet, Compression, Morgan, BodyParser, Multer, StaticPublic, Session, Csrf, Flash,
      Locals, UserAttach, ShopRoutes, AuthRoutes, Get404]"
  unfolding handle_def
  by (subst app_from_Helmet) (simp add: stack_from_app example_defs get_home_def)

lemma example_state_at:
  "state_at (handle example_env get_home) UserAttach = Some example_state"
  unfolding handle_def
  by (subst app_from_Helmet)
     (simp add: stack_from_app example_defs get_home_def example_state_def)

lemma example_route_entry:
  "route_entry (handle example_env get_home)
     = Some (ShopRoutes, example_state\<lparr>reqUser := Some (User ''u1'')\<rparr>)"
  unfolding handle_def
  by (subst app_from_Helmet)
     (simp add: stack_from_app example_defs get_home_def example_state_def)

subsection \<open>Runs that end at the 500 page before the routers\<close>

lemma is_failure_page_failure_page [simp]: "is_failure_page (failure_page c)"
  by (simp add: is_failure_page_def failure_page_def)

lemma failure_page_status: "is_failure_page x \<Longrightarrow> status_of x = 500"
  by (cases x) (simp_all add: is_failure_page_def)

lemma refused_entered [simp]:
  "\<not> is_route n \<Longrightarrow> n \<noteq> Error500 \<Longrightarrow> refused (entered n c r) = refused r"
  by (auto simp: refused_def)

lemma refused_error [simp]: "refused (entered Error500 c ([], failure_page c', c''))"
  by (simp add: refused_def)

lemma refused_from_session:
  assumes "state_changing (reqMethod (req c))" and "\<not> csrf_valid e (req c)"
    and "reqSession c = None"
  shows "refused (dispatch (stack_from Session (app e)) None c)"
  using assms
  by (auto simp: stack_from_app(8,9) session_mw_def csrfProtection_def error_reaches_500
      state_changing_def csrf_valid_def csrf_ignored_def Let_def
      split: session_load.splits option.splits)

lemma refused_from_static:
  assumes "state_changing (reqMethod (req c))" and "\<not> csrf_valid e (req c)"
    and "reqSession c = None"
  shows "refused (dispatch (stack_from StaticPublic (app e)) None c)"
proof -
  from assms(1) have m: "reqMethod (req c) \<noteq> GET" "reqMethod (req c) \<noteq> HEAD"
    by (auto simp: state_changing_def)
  show ?thesis
    using m refused_from_session[OF assms] by (simp add: stack_from_app(6,7) serve_static_def)
qed

lemma refused_from_multer:
  assumes "state_changing (reqMethod (req c))" and "\<not> csrf_valid e (req c)"
    and "reqSession c = None"
  shows "refused (dispatch (stack_from Multer (app e)) None c)"
proof -
  have "refused (dispatch (stack_from StaticPublic (app e)) None c')"
    if "req c' = req c" "reqSession c' = None" for c'
    using that assms by (intro refused_from_static) simp_all
  then show ?thesis
    using assms(3)
    by (simp add: stack_from_app(5) multer_single_def error_reaches_500 split: option.splits)
qed

lemma refused_handle:
  assumes "state_changing (reqMethod r)" and "\<not> csrf_valid e r"
  shows "refused (handle e r)"
proof -
  have "refused (dispatch (stack_from Multer (app e)) None (init e r))"
    using assms by (intro refused_from_multer) (simp_all add: init_def)
  then show ?thesis
    unfolding handle_def
    by (subst app_from_Helmet)
       (simp add: stack_from_app(1-4) helmet_def compression_def morgan_def
          bodyParser_urlencoded_def error_reaches_500 split: option.splits)
qed

subsection \<open>The state in which the routers are entered\<close>

lemma routes_ready_entered [simp]:
  "routes_ready e (entered n c r) = (if is_route n then locals_ready e c else routes_ready e r)"
  by (simp add: routes_ready_def)

lemma routes_ready_Nil [simp]: "routes_ready e ([], x)"
  by (simp add: routes_ready_def)

lemma ready_from_routes:
  "locals_ready e c \<Longrightarrow> routes_ready e (dispatch (stack_from AdminRoutes (app e)) None c)"
  by (simp add: stack_from_app(13,14))

lemma ready_from_user:
  assumes "locals_ready e c"
  shows "routes_ready e (dispatch (stack_from UserAttach (app e)) None c)"
proof -
  have "routes_ready e (dispatch (stack_from AdminRoutes (app e)) None (c\<lparr>reqUser := u\<rparr>))" for u
    using assms by (intro ready_from_routes) (auto simp: locals_ready_def split: option.splits)
  moreover have "routes_ready e (dispatch (stack_from AdminRoutes (app e)) None c)"
    using assms by (rule ready_from_routes)
  ultimately show ?thesis
    by (simp add: stack_from_app(12) setUser_def error_reaches_500
        split: option.splits lookup.splits)
qed

lemma setLocals_ready:
  assumes "reqSession c = Some s" and "hasCsrfToken c"
  shows "\<exists>c'. setLocals e c = Next c' \<and> locals_ready e c'"
  using assms
  by (simp add: setLocals_def csrfToken_def locals_ready_def expected_auth_def js_or_def
      session_isLoggedIn_def Let_def split: option.splits)

lemma ready_from_locals: "routes_ready e (dispatch (stack_from Locals (app e)) None c)"
proof (cases "hasCsrfToken c \<and> reqSession c \<noteq> None")
  case False
  then show ?thesis
    by (auto simp: stack_from_app(11) setLocals_def csrfToken_def error_reaches_500 Let_def)
next
  case True
  then obtain s where "reqSession c = Some s" and "hasCsrfToken c" by auto
  then obtain c' where c': "setLocals e c = Next c'" "locals_ready e c'"
    using setLocals_ready by blast
  from c'(2) have "routes_ready e (dispatch (stack_from UserAttach (app e)) None c')"
    by (rule ready_from_user)
  with c'(1) show ?thesis by (simp add: stack_from_app(11))
qed

lemma ready_from_session: "routes_ready e (dispatch (stack_from Session (app e)) None c)"
  by (simp add: stack_from_app(8,9,10) session_mw_def csrfProtection_def flash_def
      error_reaches_500 ready_from_locals Let_def split: session_load.splits option.splits)

lemma ready_from_static: "routes_ready e (dispatch (stack_from StaticPublic (app e)) None c)"
  by (simp add: stack_from_app(6,7) serve_static_def ready_from_session)

lemma ready_handle: "routes_ready e (handle e r)"
  unfolding handle_def
  by (subst app_from_Helmet)
     (simp add: stack_from_app(1-5) helmet_def compression_def morgan_def
        bodyParser_urlencoded_def multer_single_def error_reaches_500 ready_from_static
        split: option.splits)

subsection \<open>The state in which the user middleware is entered\<close>

lemma attach_safe_entered [simp]:
  "attach_safe (entered n c r)
     = (if n = UserAttach then reqSession c \<noteq> None else attach_safe r)"
  by (simp add: attach_safe_def)

lemma attach_safe_Nil [simp]: "attach_safe ([], x)"
  by (simp add: attach_safe_def)

lemma safe_from_locals: "attach_safe (dispatch (stack_from Locals (app e)) None c)"
  by (simp add: stack_from_app(11,12) setLocals_def csrfToken_def error_reaches_500 Let_def
      split: option.splits)

lemma safe_from_session: "attach_safe (dispatch (stack_from Session (app e)) None c)"
  by (simp add: stack_from_app(8,9,10) session_mw_def csrfProtection_def flash_def
      error_reaches_500 safe_from_locals Let_def split: session_load.splits option.splits)

lemma safe_from_static: "attach_safe (dispatch (stack_from StaticPublic (app e)) None c)"
  by (simp add: stack_from_app(6,7) serve_static_def safe_from_session)

lemma safe_handle: "attach_safe (handle e r)"
  unfolding handle_def
  by (subst app_from_Helmet)
     (simp add: stack_from_app(1-5) helmet_def compression_def morgan_def
        bodyParser_urlencoded_def multer_single_def error_reaches_500 safe_from_static
        split: option.splits)

section \<open>The upload filter and the stored file name\<close>

text \<open>
  Claim C3, as amended. The file filter accepts a file exactly when its MIME type is
  image/png, image/jpg or image/jpeg, and it never reports an error. A file of any other
  type that is uploaded under the field \<open>image\<close> is skipped by the upload middleware:
  the state of the request is unchanged, so nothing is written and no file is attached,
  and the request goes on to the next layer. A file under any other field name never
  reaches the filter: the upload middleware refuses it with an error, whatever its type.
\<close>

theorem fileFilter_accepts_exactly_images:
  "fileFilter f = (None, mimetype f \<in> {''image/png'', ''image/jpg'', ''image/jpeg''})
   \<and> (filePart (req c) = Some f \<and> fieldname f = ''image''
        \<and> mimetype f \<notin> {''image/png'', ''image/jpg'', ''image/jpeg''}
      \<longrightarrow> multer_single e ''image'' c = Next c)
   \<and> (filePart r = Some f \<and> fieldname f = ''image''
        \<and> mimetype f \<notin> {''image/png'', ''image/jpg'', ''image/jpeg''}
        \<and> bodyParserError e r = None
      \<longrightarrow> state_at (handle e r) StaticPublic = Some (init e r)
          \<and> reqFile (init e r) = None \<and> disk (init e r) = uploads e)
   \<and> (filePart (req c) = Some f \<and> fieldname f \<noteq> ''image''
      \<longrightarrow> multer_single e ''image'' c = NextErr (MulterError ''LIMIT_UNEXPECTED_FILE'') c)"
proof (intro conjI impI)
  show "fileFilter f = (None, mimetype f \<in> {''image/png'', ''image/jpg'', ''image/jpeg''})"
    by (simp add: fileFilter_def)
next
  assume "filePart (req c) = Some f \<and> fieldname f = ''image''
        \<and> mimetype f \<notin> {''image/png'', ''image/jpg'', ''image/jpeg''}"
  then show "multer_single e ''image'' c = Next c"
    by (simp add: multer_single_def fileFilter_def)
next
  assume a: "filePart r = Some f \<and> fieldname f = ''image''
        \<and> mimetype f \<notin> {''image/png'', ''image/jpg'', ''image/jpeg''}
        \<and> bodyParserError e r = None"
  then have m: "multer_single e ''image'' (init e r) = Next (init e r)"
    by (simp add: multer_single_def fileFilter_def init_def)
  from a have b: "bodyParser_urlencoded e (init e r) = Next (init e r)"
    by (simp add: bodyParser_urlencoded_def init_def)
  show "state_at (handle e r) StaticPublic = Some (init e r)"
    unfolding handle_def
    by (subst app_from_Helmet)
       (simp add: stack_from_app(1-6) helmet_def compression_def morgan_def m b)
  show "reqFile (init e r) = None" by (simp add: init_def)
  show "disk (init e r) = uploads e" by (simp add: init_def)
next
  assume "filePart (req c) = Some f \<and> fieldname f \<noteq> ''image''"
  then show "multer_single e ''image'' c = NextErr (MulterError ''LIMIT_UNEXPECTED_FILE'') c"
    by (simp add: multer_single_def)
qed

text \<open>
  A GIF under the field \<open>image\<close> is skipped; a PNG is accepted; a GIF under the field
  \<open>photo\<close> is refused with an error.
\<close>

theorem fileFilter_accepts_exactly_images_witness:
  "fileFilter example_gif = (None, False)
   \<and> fileFilter example_png = (None, True)
   \<and> multer_single example_env ''image'' (init example_env post_gif)
       = Next (init example_env post_gif)
   \<and> state_at (handle example_env post_gif) StaticPublic = Some (init example_env post_gif)
   \<and> reqFile (init example_env post_gif) = None
   \<and> multer_single example_env ''image'' (init example_env post_gif_photo)
       = NextErr (MulterError ''LIMIT_UNEXPECTED_FILE'') (init example_env post_gif_photo)"
  using fileFilter_accepts_exactly_images
          [of example_gif "init example_env post_gif" example_env post_gif]
        fileFilter_accepts_exactly_images
          [of example_png "init example_env post_gif" example_env post_gif]
        fileFilter_accepts_exactly_images
          [of example_gif_photo "init example_env post_gif_photo" example_env post_gif_photo]
  by (simp add: example_gif_def example_png_def example_gif_photo_def post_gif_def
      post_gif_photo_def init_def example_env_def)

text \<open>
  The claim as stated fails on a GIF uploaded under the field \<open>photo\<close>: the filter would
  turn it down without an error, but the upload middleware raises an error before it asks
  the filter, the run goes to the 500 page, and the request does not go on to the next
  layer.
\<close>

theorem unexpected_field_counterexample:
  "filePart post_gif_photo = Some example_gif_photo
   \<and> mimetype example_gif_photo \<notin> {''image/png'', ''image/jpg'', ''image/jpeg''}
   \<and> fileFilter example_gif_photo = (None, False)
   \<and> multer_single example_env ''image'' (init example_env post_gif_photo)
       = NextErr (MulterError ''LIMIT_UNEXPECTED_FILE'') (init example_env post_gif_photo)
   \<and> multer_single example_env ''image'' (init example_env post_gif_photo)
       \<noteq> Next (init example_env post_gif_photo)
   \<and> trace (handle example_env post_gif_photo)
       = [Helmet, Compression, Morgan, BodyParser, Multer, Error500]
   \<and> state_at (handle example_env post_gif_photo) StaticPublic = None
   \<and> status_of (response_of (handle example_env post_gif_photo)) = 500"
proof -
  have "handle example_env post_gif_photo =
          dispatch (stack_from Helmet (app example_env)) None (init example_env post_gif_photo)"
    unfolding handle_def by (subst app_from_Helmet) simp
  then show ?thesis
    by (simp add: stack_from_app(1-5) error_reaches_500 example_defs post_gif_photo_def
        example_gif_photo_def fileFilter_def failure_page_def)
qed

text \<open>
  Claim C6, as amended. An accepted upload is written into the directory \<open>images\<close> and
  attached to the request; its stored name is the ISO-8601 timestamp of the clock, every
  colon of the timestamp replaced by a hyphen, then one more hyphen as separator, then
  the original file name. The claim as stated leaves the separator out.
\<close>

theorem accepted_upload_stored:
  assumes "filePart (req c) = Some f" and "fieldname f = ''image''" and "snd (fileFilter f)"
  shows "multer_single e ''image'' c =
           Next (c\<lparr>reqFile := Some \<lparr>storedDestination = ''images'',
                      storedFilename =
                        replace_colons (toISOString (now e)) @ ''-'' @ originalname f\<rparr>,
                   disk := (''images'',
                            replace_colons (toISOString (now e)) @ ''-'' @ originalname f)
                           # disk c\<rparr>)
         \<and> CHR '':'' \<notin> set (replace_colons (toISOString (now e)))
         \<and> length (replace_colons (toISOString (now e))) = length (toISOString (now e))
         \<and> (year (now e) \<le> 9999 \<longrightarrow>
              replace_colons (toISOString (now e)) =
                pad4 (year (now e)) @ ''-'' @ pad2 (month (now e)) @ ''-'' @ pad2 (day (now e))
                @ ''T'' @ pad2 (hours (now e)) @ ''-'' @ pad2 (minutes (now e))
                @ ''-'' @ pad2 (seconds (now e)) @ ''.'' @ pad3 (millis (now e)) @ ''Z'')"
proof (intro conjI impI)
  from assms show "multer_single e ''image'' c =
           Next (c\<lparr>reqFile := Some \<lparr>storedDestination = ''images'',
                      storedFilename =
                        replace_colons (toISOString (now e)) @ ''-'' @ originalname f\<rparr>,
                   disk := (''images'',
                            replace_colons (toISOString (now e)) @ ''-'' @ originalname f)
                           # disk c\<rparr>)"
    by (simp add: multer_single_def destination_def filename_def fileFilter_def split: if_splits)
  show "CHR '':'' \<notin> set (replace_colons (toISOString (now e)))" by (rule no_colon_left)
  show "length (replace_colons (toISOString (now e))) = length (toISOString (now e))"
    by (simp add: replace_colons_def)
next
  assume "year (now e) \<le> 9999"
  then show "replace_colons (toISOString (now e)) =
                pad4 (year (now e)) @ ''-'' @ pad2 (month (now e)) @ ''-'' @ pad2 (day (now e))
                @ ''T'' @ pad2 (hours (now e)) @ ''-'' @ pad2 (minutes (now e))
                @ ''-'' @ pad2 (seconds (now e)) @ ''.'' @ pad3 (millis (now e)) @ ''Z''"
    by (rule replace_colons_iso)
qed

theorem accepted_upload_stored_witness:
  "snd (fileFilter example_png)
   \<and> multer_single example_env ''image'' (init example_env post_png) =
       Next ((init example_env post_png)
               \<lparr>reqFile := Some \<lparr>storedDestination = ''images'',
                                 storedFilename = ''2024-03-09T14-05-07.042Z-cat.png''\<rparr>,
                disk := [(''images'', ''2024-03-09T14-05-07.042Z-cat.png'')]\<rparr>)"
proof -
  have a: "filePart (req (init example_env post_png)) = Some example_png"
    "fieldname example_png = ''image''" "snd (fileFilter example_png)"
    by (simp_all add: init_def post_png_def example_png_def fileFilter_def)
  have n: "replace_colons (toISOString (now example_env)) = ''2024-03-09T14-05-07.042Z''"
    by (simp add: example_env_def example_date_def toISOString_def replace_colons_def
        pad2_def pad3_def pad4_def digit_def)
  have d: "disk (init example_env post_png) = []" "originalname example_png = ''cat.png''"
    by (simp_all add: init_def example_env_def example_png_def)
  from accepted_upload_stored[OF a, of example_env] a(3) show ?thesis
    by (simp add: n d)
qed

text \<open>
  The claim as stated fails on the accepted PNG: the stored name has a hyphen between
  the timestamp and the original name.
\<close>

theorem filename_without_separator_counterexample:
  "snd (fileFilter example_png)
   \<and> snd (filename example_date example_png) = ''2024-03-09T14-05-07.042Z-cat.png''
   \<and> replace_colons (toISOString example_date) @ originalname example_png
       = ''2024-03-09T14-05-07.042Zcat.png''
   \<and> snd (filename example_date example_png)
       \<noteq> replace_colons (toISOString example_date) @ originalname example_png"
  by (simp add: filename_def fileFilter_def example_date_def example_png_def toISOString_def
      replace_colons_def pad2_def pad3_def pad4_def digit_def)

text \<open>
  Claim C8, as amended. Two uploads get the same stored name exactly when they have the
  same original name and the clock shows the same instant to the millisecond: the
  granule of the timestamp is one millisecond, not one second. Nothing else is checked:
  an accepted file is written under its name whether or not that name is already on
  disk.
\<close>

theorem filename_collision_iff:
  assumes "valid_date d1" and "valid_date d2"
  shows "((snd (filename d1 f1) = snd (filename d2 f2))
            = (d1 = d2 \<and> originalname f1 = originalname f2))
         \<and> (filePart (req c) = Some f1 \<and> fieldname f1 = ''image'' \<and> snd (fileFilter f1)
            \<and> (''images'', snd (filename (now e) f1)) \<in> set (disk c)
            \<longrightarrow> (\<exists>c'. multer_single e ''image'' c = Next c'
                    \<and> disk c' = (''images'', snd (filename (now e) f1)) # disk c))"
proof (intro conjI impI)
  show "(snd (filename d1 f1) = snd (filename d2 f2))
          = (d1 = d2 \<and> originalname f1 = originalname f2)"
    using stamp_inj[OF assms] by (auto simp: filename_def)
next
  assume "filePart (req c) = Some f1 \<and> fieldname f1 = ''image'' \<and> snd (fileFilter f1)
            \<and> (''images'', snd (filename (now e) f1)) \<in> set (disk c)"
  then show "\<exists>c'. multer_single e ''image'' c = Next c'
                    \<and> disk c' = (''images'', snd (filename (now e) f1)) # disk c"
    by (simp add: multer_single_def destination_def filename_def fileFilter_def
        split: if_splits)
qed

text \<open>
  Two uploads of the same name at the same instant collide, whatever else differs; the
  second one is written over the first.
\<close>

theorem filename_collision_iff_witness:
  "valid_date example_date
   \<and> snd (filename example_date example_png)
       = snd (filename example_date (example_png\<lparr>mimetype := ''image/jpeg''\<rparr>))
   \<and> (\<exists>c'. multer_single example_env ''image''
               ((init example_env post_png)
                  \<lparr>disk := [(''images'', ''2024-03-09T14-05-07.042Z-cat.png'')]\<rparr>) = Next c'
           \<and> disk c' = [(''images'', ''2024-03-09T14-05-07.042Z-cat.png''),
                         (''images'', ''2024-03-09T14-05-07.042Z-cat.png'')])"
proof -
  have v: "valid_date example_date"
    by (simp add: valid_date_def example_date_def)
  have n: "snd (filename (now example_env) example_png) = ''2024-03-09T14-05-07.042Z-cat.png''"
    by (simp add: filename_def example_env_def example_date_def example_png_def toISOString_def
        replace_colons_def pad2_def pad3_def pad4_def digit_def)
  have a: "filePart (req ((init example_env post_png)
                  \<lparr>disk := [(''images'', ''2024-03-09T14-05-07.042Z-cat.png'')]\<rparr>))
             = Some example_png"
    "fieldname example_png = ''image''" "snd (fileFilter example_png)"
    by (simp_all add: init_def post_png_def example_png_def fileFilter_def)
  from filename_collision_iff[OF v v, of example_png "example_png\<lparr>mimetype := ''image/jpeg''\<rparr>"
         "(init example_env post_png)
            \<lparr>disk := [(''images'', ''2024-03-09T14-05-07.042Z-cat.png'')]\<rparr>" example_env]
       v a n
  show ?thesis by simp
qed

text \<open>
  The claim as stated fails: two uploads of the same name within the same second, one
  millisecond apart, get different names.
\<close>

theorem same_second_counterexample:
  "valid_date example_date \<and> valid_date example_date_later
   \<and> year example_date = year example_date_later
   \<and> month example_date = month example_date_later
   \<and> day example_date = day example_date_later
   \<and> hours example_date = hours example_date_later
   \<and> minutes example_date = minutes example_date_later
   \<and> seconds example_date = seconds example_date_later
   \<and> snd (filename example_date example_png) = ''2024-03-09T14-05-07.042Z-cat.png''
   \<and> snd (filename example_date_later example_png) = ''2024-03-09T14-05-07.043Z-cat.png''
   \<and> snd (filename example_date example_png) \<noteq> snd (filename example_date_later example_png)"
  by (simp add: filename_def example_date_def example_date_later_def example_png_def
      toISOString_def replace_colons_def pad2_def pad3_def pad4_def digit_def valid_date_def)

section \<open>The error page\<close>

text \<open>
  Claim C7. The 500 middleware never throws and never passes on: for every error and
  every state of the request it renders the view \<open>500\<close> with status 500. The
  authentication state of the page is the flag of the session when there is a session
  with the flag set, and false when the flag or the session itself is missing.
\<close>

theorem errorPage500_never_throws:
  "errorPage500 err c =
     End (Render 500 ''500''
            \<lparr>pageTitle = ''Error!'', path = ''/500'',
             isAuthenticated =
               JBool (case reqSession c of
                        None \<Rightarrow> False
                      | Some s \<Rightarrow> (case isLoggedIn s of None \<Rightarrow> False | Some b \<Rightarrow> b))\<rparr>) c
   \<and> (\<forall>err' c'. errorPage500 err c \<noteq> Throw err' c')
   \<and> (\<forall>err' c'. errorPage500 err c \<noteq> NextErr err' c')
   \<and> errorPage500 err (c\<lparr>reqSession := None\<rparr>) =
       End (Render 500 ''500''
              \<lparr>pageTitle = ''Error!'', path = ''/500'', isAuthenticated = JBool False\<rparr>)
           (c\<lparr>reqSession := None\<rparr>)
   \<and> status_of (failure_page c) = 500
   \<and> dispatch (app e) (Some err) c = entered Error500 c ([], failure_page c, c)"
proof -
  have "dispatch (app e) (Some err) c = entered Error500 c ([], failure_page c, c)"
    by (subst app_from_Helmet) (simp add: error_reaches_500)
  then show ?thesis
    by (simp add: errorPage500_def failure_page_def js_or_def session_isLoggedIn_def
        split: option.splits)
qed

section \<open>The order of the layers\<close>

text \<open>
  Claim C4, as amended. Every request enters the layers in their registration order:
  helmet, compression, access logging, body parsing, file parsing, the two static
  directories, session resolution, CSRF check, flash, view locals, user attachment, the
  three routers, the 404 page, the 500 page. User attachment comes after the CSRF check
  and flash, not before them as the claim has it.
\<close>

theorem layers_run_in_registration_order:
  "map lname (app e) = registration_order
   \<and> subseq (trace (handle e r)) registration_order
   \<and> follows registration_order (trace (handle e r))"
proof -
  have s: "subseq (trace (handle e r)) registration_order"
    unfolding handle_def using trace_subseq[of "app e" None "init e r"] by (simp add: names_app)
  then have "set (trace (handle e r)) \<subseteq> set registration_order"
    by (auto elim: list_emb_set)
  then have "filter (\<lambda>n. n \<in> set registration_order) (trace (handle e r)) = trace (handle e r)"
    by (auto simp: filter_id_conv)
  with s show ?thesis by (simp add: follows_def names_app)
qed

text \<open>
  The order of the claim fails on a plain request for the home page: the CSRF check and
  flash are entered before user attachment.
\<close>

theorem specified_order_counterexample:
  "trace (handle example_env get_home) =
     [Helmet, Compression, Morgan, BodyParser, Multer, StaticPublic, Session, Csrf, Flash,
      Locals, UserAttach, ShopRoutes, AuthRoutes, Get404]
   \<and> \<not> follows specified_order (trace (handle example_env get_home))"
  by (simp add: example_trace follows_def specified_order_def)

section \<open>The debug route\<close>

text \<open>
  Claim C1. The claim needs a request for /debug-session to reach the debug handler.
  The route is registered after the 404 catch-all and the 500 middleware, both of which
  answer, so no request ever enters it: in the concrete environment the request gets the
  not-found page.
\<close>

theorem debug_route_never_entered:
  "DebugSession \<notin> set (trace (handle e r))
   \<and> trace (handle example_env get_debug_session) =
       [Helmet, Compression, Morgan, BodyParser, Multer, StaticPublic, Session, Csrf, Flash,
        Locals, UserAttach, ShopRoutes, AuthRoutes, Get404]
   \<and> response_of (handle example_env get_debug_session) = NotFoundPage"
proof (intro conjI)
  have "app e = take 15 (app e) @ use Get404 (Mw get404) # use Error500 (ErrMw errorPage500)
                  # drop 17 (app e)"
    by (simp add: app_def)
  then have "set (trace (handle e r)) \<subseteq> lname ` set (take 15 (app e)) \<union> {Get404, Error500}"
    unfolding handle_def by (metis dispatch_stops)
  moreover have "DebugSession \<notin> lname ` set (take 15 (app e)) \<union> {Get404, Error500}"
    by (simp add: app_def)
  ultimately show "DebugSession \<notin> set (trace (handle e r))" by blast
next
  show "trace (handle example_env get_debug_session) =
       [Helmet, Compression, Morgan, BodyParser, Multer, StaticPublic, Session, Csrf, Flash,
        Locals, UserAttach, ShopRoutes, AuthRoutes, Get404]"
    unfolding handle_def
    by (subst app_from_Helmet) (simp add: stack_from_app example_defs get_debug_session_def)
next
  show "response_of (handle example_env get_debug_session) = NotFoundPage"
    unfolding handle_def
    by (subst app_from_Helmet) (simp add: stack_from_app example_defs get_debug_session_def)
qed

section \<open>The CSRF check\<close>

text \<open>
  Claim C2, as amended. A POST, PUT or DELETE request whose token is missing or does not
  verify against the secret of its session enters none of the three routers: the CSRF
  layer, which stands before them, raises an error of status 403, and the run ends at
  the 500 middleware, which answers every error with the failure page and status 500.
  The response is therefore a server error, not a client error.
\<close>

theorem csrf_failure_is_refused:
  assumes "state_changing (reqMethod r)" and "\<not> csrf_valid e r"
  shows "refused (handle e r)
         \<and> (csrfValue r = None \<longrightarrow> \<not> csrf_valid e r)
         \<and> status_of (response_of (handle e r)) = 500
         \<and> \<not> is_client_error (status_of (response_of (handle e r)))
         \<and> (reqSession c = Some s \<and> req c = r
              \<and> \<not> token_ok e (session_secret e s) (csrfValue r)
            \<longrightarrow> (\<exists>c'. csrfProtection e c = NextErr InvalidCsrfToken c')
                \<and> error_status InvalidCsrfToken = Some 403)"
proof -
  have a: "refused (handle e r)" using assms by (rule refused_handle)
  then have b: "status_of (response_of (handle e r)) = 500"
    by (simp add: refused_def failure_page_status)
  from assms(1) have "\<not> csrf_ignored (reqMethod r)"
    by (auto simp: state_changing_def csrf_ignored_def)
  then have "reqSession c = Some s \<and> req c = r
              \<and> \<not> token_ok e (session_secret e s) (csrfValue r)
            \<longrightarrow> (\<exists>c'. csrfProtection e c = NextErr InvalidCsrfToken c')
                \<and> error_status InvalidCsrfToken = Some 403"
    by (auto simp: csrfProtection_def Let_def)
  moreover have "csrfValue r = None \<longrightarrow> \<not> csrf_valid e r"
    by (simp add: csrf_valid_def token_ok_def split: session_load.splits)
  ultimately show ?thesis using a b by (simp add: is_client_error_def)
qed

theorem csrf_failure_is_refused_witness:
  "state_changing (reqMethod post_without_token)
   \<and> \<not> csrf_valid example_env post_without_token
   \<and> refused (handle example_env post_without_token)
   \<and> status_of (response_of (handle example_env post_without_token)) = 500
   \<and> (\<exists>c'. csrfProtection example_env (example_state\<lparr>req := post_without_token\<rparr>)
              = NextErr InvalidCsrfToken c')"
proof -
  have a: "state_changing (reqMethod post_without_token)"
    "\<not> csrf_valid example_env post_without_token"
    by (simp_all add: state_changing_def csrf_valid_def post_without_token_def example_env_def
        token_ok_def)
  have b: "reqSession (example_state\<lparr>req := post_without_token\<rparr>) = Some example_session"
    "req (example_state\<lparr>req := post_without_token\<rparr>) = post_without_token"
    "\<not> token_ok example_env (session_secret example_env example_session)
         (csrfValue post_without_token)"
    by (simp_all add: example_state_def token_ok_def post_without_token_def)
  from csrf_failure_is_refused[OF a, of "example_state\<lparr>req := post_without_token\<rparr>"
         example_session] a b
  show ?thesis by simp
qed

text \<open>
  The claim as stated fails on a POST without a token: the response has status 500.
\<close>

theorem csrf_client_error_counterexample:
  "reqMethod post_without_token = POST
   \<and> csrfValue post_without_token = None
   \<and> trace (handle example_env post_without_token) =
       [Helmet, Compression, Morgan, BodyParser, Multer, StaticPublic, Session, Csrf, Error500]
   \<and> status_of (response_of (handle example_env post_without_token)) = 500
   \<and> \<not> is_client_error (status_of (response_of (handle example_env post_without_token)))"
proof -
  have "handle example_env post_without_token =
          dispatch (stack_from Helmet (app example_env)) None (init example_env post_without_token)"
    unfolding handle_def by (subst app_from_Helmet) simp
  then show ?thesis
    by (simp add: stack_from_app(1-9) error_reaches_500 example_defs post_without_token_def
        failure_page_def is_client_error_def)
qed

section \<open>The user of the session\<close>

text \<open>
  Claim C5. With a session on the request, the user middleware passes the request on
  unchanged when the session names no user; attaches the user when the lookup finds
  one; passes the request on unchanged, without an error, when the lookup finds none;
  and hands a failure of the lookup to \<^verbatim>\<open>next(err)\<close>, from where the run goes to the 500
  middleware and ends with the failure page. In a run of the stack the middleware is
  only ever entered with a session on the request.
\<close>

theorem user_attachment_cases:
  "(reqSession c = Some s \<longrightarrow>
      (sessUser s = None \<longrightarrow> setUser e c = Next c)
    \<and> (\<forall>uid u. sessUser s = Some uid \<and> findById e uid = Found u
          \<longrightarrow> setUser e c = Next (c\<lparr>reqUser := Some u\<rparr>))
    \<and> (\<forall>uid. sessUser s = Some uid \<and> findById e uid = NotFound \<longrightarrow> setUser e c = Next c)
    \<and> (\<forall>uid m. sessUser s = Some uid \<and> findById e uid = Failed m
          \<longrightarrow> setUser e c = NextErr (WrappedError m) c
              \<and> dispatch (stack_from UserAttach (app e)) None c
                  = entered UserAttach c (entered Error500 c ([], failure_page c, c))))
   \<and> (state_at (handle e r) UserAttach = Some c' \<longrightarrow> reqSession c' \<noteq> None)"
proof (intro conjI impI allI)
  assume "state_at (handle e r) UserAttach = Some c'"
  with safe_handle[of e r] show "reqSession c' \<noteq> None" by (simp add: attach_safe_def)
qed (auto simp: setUser_def stack_from_app(12) error_reaches_500)

text \<open>
  The four cases in the concrete environment: a failing lookup, a user found, no user
  found, and a session without a user.
\<close>

theorem user_attachment_cases_witness:
  "setUser (example_env\<lparr>findById := (\<lambda>i. Failed ''down'')\<rparr>) example_state
     = NextErr (WrappedError ''down'') example_state
   \<and> response_of (dispatch
         (stack_from UserAttach (app (example_env\<lparr>findById := (\<lambda>i. Failed ''down'')\<rparr>)))
         None example_state) = failure_page example_state
   \<and> setUser example_env example_state = Next (example_state\<lparr>reqUser := Some (User ''u1'')\<rparr>)
   \<and> setUser (example_env\<lparr>findById := (\<lambda>i. NotFound)\<rparr>) example_state = Next example_state
   \<and> setUser example_env
        (example_state\<lparr>reqSession := Some (example_session\<lparr>sessUser := None\<rparr>)\<rparr>)
       = Next (example_state\<lparr>reqSession := Some (example_session\<lparr>sessUser := None\<rparr>)\<rparr>)
   \<and> state_at (handle example_env get_home) UserAttach = Some example_state
   \<and> reqSession example_state \<noteq> None"
proof -
  have s: "reqSession example_state = Some example_session"
    by (simp add: example_state_def)
  have u: "sessUser example_session = Some ''u1''" by (simp add: example_session_def)
  show ?thesis
    using user_attachment_cases[of example_state example_session
            "example_env\<lparr>findById := (\<lambda>i. Failed ''down'')\<rparr>" get_home example_state]
          user_attachment_cases[of example_state example_session example_env get_home
            example_state]
          user_attachment_cases[of example_state example_session
            "example_env\<lparr>findById := (\<lambda>i. NotFound)\<rparr>" get_home example_state]
          user_attachment_cases[of
            "example_state\<lparr>reqSession := Some (example_session\<lparr>sessUser := None\<rparr>)\<rparr>"
            "example_session\<lparr>sessUser := None\<rparr>" example_env get_home example_state]
          example_state_at s u
    by (simp add: example_env_def)
qed

section \<open>The locals of the views\<close>

text \<open>
  Claim C10. Whenever a run enters a router, the state it enters the first router with
  has \<^verbatim>\<open>res.locals.isAuthenticated\<close> set to the flag of the session when the session
  exists and its flag is true, and to false otherwise, and \<^verbatim>\<open>res.locals.csrfToken\<close> set
  to a token made for this request from the secret of the session. The middleware itself
  sets the authentication flag so in every state, also when there is no session or no
  flag.
\<close>

theorem locals_set_before_routes:
  "(route_entry (handle e r) = Some (n, c) \<longrightarrow>
      localsIsAuthenticated c = Some (JBool (expected_auth (reqSession c)))
      \<and> (\<exists>s k. reqSession c = Some s \<and> csrfSecret s = Some k
                \<and> localsCsrfToken c = Some (createToken e k)))
   \<and> (\<exists>c1. (setLocals e c0 = Next c1 \<or> (\<exists>err. setLocals e c0 = Throw err c1))
           \<and> localsIsAuthenticated c1 = Some (JBool (expected_auth (reqSession c0))))
   \<and> expected_auth so = (\<exists>s. so = Some s \<and> isLoggedIn s = Some True)"
proof (intro conjI impI)
  assume a: "route_entry (handle e r) = Some (n, c)"
  with ready_handle[of e r] have l: "locals_ready e c" by (simp add: routes_ready_def)
  then show "localsIsAuthenticated c = Some (JBool (expected_auth (reqSession c)))"
    by (simp add: locals_ready_def)
  from l show "\<exists>s k. reqSession c = Some s \<and> csrfSecret s = Some k
                \<and> localsCsrfToken c = Some (createToken e k)"
    by (auto simp: locals_ready_def split: option.splits)
next
  show "\<exists>c1. (setLocals e c0 = Next c1 \<or> (\<exists>err. setLocals e c0 = Throw err c1))
           \<and> localsIsAuthenticated c1 = Some (JBool (expected_auth (reqSession c0)))"
    by (auto simp: setLocals_def csrfToken_def expected_auth_def js_or_def
        session_isLoggedIn_def Let_def split: option.splits)
next
  show "expected_auth so = (\<exists>s. so = Some s \<and> isLoggedIn s = Some True)"
    by (auto simp: expected_auth_def split: option.splits)
qed

theorem locals_set_before_routes_witness:
  "route_entry (handle example_env get_home)
     = Some (ShopRoutes, example_state\<lparr>reqUser := Some (User ''u1'')\<rparr>)
   \<and> localsIsAuthenticated (example_state\<lparr>reqUser := Some (User ''u1'')\<rparr>) = Some (JBool True)
   \<and> localsCsrfToken (example_state\<lparr>reqUser := Some (User ''u1'')\<rparr>)
       = Some (createToken example_env ''abc'')
   \<and> expected_auth (Some example_session)"
  using locals_set_before_routes[of example_env get_home ShopRoutes
          "example_state\<lparr>reqUser := Some (User ''u1'')\<rparr>" example_state "Some example_session"]
        example_route_entry
  by (simp add: example_state_def example_session_def example_env_def)

section \<open>The two variants\<close>

text \<open>
  Claim C9, as amended. The two variants register the same layers, in the same order
  and with the same handlers and routes, so they handle every request alike; they have
  the same view settings and the same session secret, \<open>resave\<close> and
  \<open>saveUninitialized\<close>, and they listen on the same port when the environment names
  one. They differ in the session-store library and its options, in the options of the
  database connection, in the session cookie (a maximal age of one day in the first,
  none in the second) and in the port they listen on when the environment names none
  (3001 and 3000).
\<close>

theorem variants_share_the_stack:
  "stack variant1 = stack variant2
   \<and> map lname (stack variant1 e) = registration_order
   \<and> map lname (stack variant2 e) = registration_order
   \<and> handle e r = handle2 e r
   \<and> viewEngine variant1 = viewEngine variant2
   \<and> views variant1 = views variant2
   \<and> secret (sessionOptions variant1) = secret (sessionOptions variant2)
   \<and> resave (sessionOptions variant1) = resave (sessionOptions variant2)
   \<and> saveUninitialized (sessionOptions variant1) = saveUninitialized (sessionOptions variant2)
   \<and> listen_port variant1 (Some (ch # p)) = listen_port variant2 (Some (ch # p))
   \<and> library (sessionStore variant1) \<noteq> library (sessionStore variant2)
   \<and> databaseName (sessionStore variant1) \<noteq> databaseName (sessionStore variant2)
   \<and> connectOptions variant1 \<noteq> connectOptions variant2
   \<and> cookieMaxAge (sessionOptions variant1) = Some 86400000
   \<and> cookieMaxAge (sessionOptions variant2) = None
   \<and> listen_port variant1 None = PortNumber 3001
   \<and> listen_port variant2 None = PortNumber 3000"
proof -
  have a: "app = app2" by (rule ext) (simp add: app_def app2_def)
  then have h: "handle e r = handle2 e r" by (simp add: handle_def handle2_def)
  have n: "map lname (app2 e) = registration_order"
    by (simp add: app2_def registration_order_def)
  from a h n show ?thesis
    by (simp add: variant1_def variant2_def listen_port_def)
qed

text \<open>
  The claim as stated fails: the cookie configuration and the port of the two variants
  are not the same.
\<close>

theorem variants_differ_counterexample:
  "cookieMaxAge (sessionOptions variant1) \<noteq> cookieMaxAge (sessionOptions variant2)
   \<and> listen_port variant1 None \<noteq> listen_port variant2 None
   \<and> \<not> (sessionOptions variant1 = sessionOptions variant2
         \<and> defaultPort variant1 = defaultPort variant2)"
  by (simp add: variant1_def variant2_def listen_port_def)

end
